theory Spec2Isabelle
  imports Complex_Main "HOL-Library.AList" "HOL-Library.Sublist" "HOL-Library.Multiset"
begin

section \<open>Python values, exceptions and the deserialised estimator\<close>

text \<open>
  The repository is Python glue code around scikit-learn estimators and the Earth Engine
  client. Python values that end up in dictionaries are modelled by \<open>pyval\<close>; every
  exception that is a subclass of \<open>Exception\<close> is a value of \<open>py_error\<close>, and a
  call that may raise returns \<open>py_error + 'a\<close> with \<open>Inl\<close> for the exception.
\<close>

datatype pyval = PyNone | PyInt int | PyStr string | PyList "pyval list"

datatype py_error =
    FileNotFoundError
  | UnpicklingError
  | NameError
  | TypeError
  | EEException

text \<open>
  An object that \<open>pickle.load\<close> or \<open>joblib.load\<close> returns, other than Python's
  \<open>None\<close>; a deserialiser returns an \<open>sk_model option\<close>, with \<open>None\<close> for Python's
  \<open>None\<close>. The code only ever looks at the object's
  type and probes five attributes with \<open>hasattr\<close>; an absent attribute is \<open>None\<close>
  at the outer \<open>option\<close>. The attributes carry the types scikit-learn gives them:
  \<open>max_depth\<close> is an integer or Python's \<open>None\<close> (the inner \<open>option\<close>), and
  \<open>feature_names_in_\<close> and \<open>classes_\<close> are arrays, so that \<open>.tolist()\<close> is defined.
\<close>

record sk_model =
  type_name :: string
  type_repr :: string
  is_random_forest :: bool
  n_estimators :: "int option"
  max_depth :: "int option option"
  n_features_in :: "int option"
  feature_names_in :: "string list option"
  classes_attr :: "pyval list option"

section \<open>Earth Engine values\<close>

datatype ee_value = EE_String string | EE_Number real

type_synonym feature = "(string \<times> ee_value) list"

record training =
  features :: "feature list"
  classProperty :: string
  inputProperties :: "string list"

text \<open>
  A classifier object of the client library: the number of trees, the other parameters
  the constructor was given and, once \<open>.train(...)\<close> has been called on it, the
  arguments of that call.
\<close>

record ee_classifier =
  numberOfTrees :: int
  parameters :: "(string \<times> int) list"
  trained :: "training option"

text \<open>
  The platform's constructor \<open>ee.Classifier.smileRandomForest\<close> has the parameters
  \<open>numberOfTrees\<close>, \<open>variablesPerSplit\<close>, \<open>minLeafPopulation\<close>, \<open>bagFraction\<close>,
  \<open>maxNodes\<close> and \<open>seed\<close>, of which only the first is required. A call is given by
  its positional and its keyword arguments; the client raises for a keyword that is not
  a parameter, for a parameter given twice, for too many positional arguments and for a
  missing \<open>numberOfTrees\<close>.
\<close>

definition smileRandomForest_parameters :: "string list" where
  "smileRandomForest_parameters =
     [''numberOfTrees'', ''variablesPerSplit'', ''minLeafPopulation'', ''bagFraction'',
      ''maxNodes'', ''seed'']"

definition smileRandomForest :: "int list \<Rightarrow> (string \<times> int) list \<Rightarrow> py_error + ee_classifier" where
  "smileRandomForest args kwargs =
     (let bound = zip smileRandomForest_parameters args @ kwargs
      in if length args \<le> length smileRandomForest_parameters \<and>
            list_all (\<lambda>k. k \<in> set smileRandomForest_parameters) (map fst kwargs) \<and>
            distinct (map fst bound)
         then (case map_of bound ''numberOfTrees'' of
                 None \<Rightarrow> Inl EEException
               | Some n \<Rightarrow>
                   Inr \<lparr>numberOfTrees = n, parameters = AList.delete ''numberOfTrees'' bound,
                        trained = None\<rparr>)
         else Inl EEException)"

text \<open>
  Everything outside the repository that the code calls: the two deserialisers, whether
  the platform rejects a training request, the accuracy the platform computes for a
  test table and a classifier, and the pseudo-random number that \<open>randomColumn\<close>
  assigns to a row for a seed.
\<close>

record environment =
  pickle_load :: "string \<Rightarrow> py_error + sk_model option"
  joblib_load :: "string \<Rightarrow> py_error + sk_model option"
  train_raises :: "ee_classifier \<Rightarrow> bool"
  accuracy :: "feature list \<Rightarrow> ee_classifier \<Rightarrow> py_error + real"
  random_value :: "int \<Rightarrow> nat \<Rightarrow> feature \<Rightarrow> real"

definition ee_train ::
  "environment \<Rightarrow> ee_classifier \<Rightarrow> feature list \<Rightarrow> string \<Rightarrow> string list \<Rightarrow> py_error + ee_classifier" where
  "ee_train env c fs cp ips =
     (let t = c\<lparr>trained := Some \<lparr>features = fs, classProperty = cp, inputProperties = ips\<rparr>\<rparr>
      in if train_raises env t then Inl EEException else Inr t)"

section \<open>model\_loader\_utils.py: class ModelLoader\<close>

record ModelLoader =
  model_path :: string
  bands_selected :: "string list"
  loaded_model :: "sk_model option"
  ee_model :: "ee_classifier option"

definition ModelLoader_init :: "string \<Rightarrow> string list \<Rightarrow> ModelLoader" where
  "ModelLoader_init path bands =
     \<lparr>model_path = path, bands_selected = bands, loaded_model = None, ee_model = None\<rparr>"

datatype deserializer = Pickle | Joblib

text \<open>
  \<open>load_model\<close> returns its boolean, the deserialisers it called (in call order) and
  the loader after the call.
\<close>

definition load_model :: "environment \<Rightarrow> ModelLoader \<Rightarrow> bool \<times> deserializer list \<times> ModelLoader" where
  "load_model env self =
     (case pickle_load env (model_path self) of
        Inr obj \<Rightarrow> (True, [Pickle], self\<lparr>loaded_model := obj\<rparr>)
      | Inl e1 \<Rightarrow>
          (case joblib_load env (model_path self) of
             Inr obj \<Rightarrow> (True, [Pickle, Joblib], self\<lparr>loaded_model := obj\<rparr>)
           | Inl e2 \<Rightarrow> (False, [Pickle, Joblib], self)))"

type_synonym py_dict = "(string \<times> pyval) list"

definition set_if_present :: "string \<Rightarrow> 'a option \<Rightarrow> ('a \<Rightarrow> pyval) \<Rightarrow> py_dict \<Rightarrow> py_dict" where
  "set_if_present k attr conv info =
     (case attr of None \<Rightarrow> info | Some v \<Rightarrow> AList.update k (conv v) info)"

definition py_of_depth :: "int option \<Rightarrow> pyval" where
  "py_of_depth d = (case d of None \<Rightarrow> PyNone | Some i \<Rightarrow> PyInt i)"

definition get_model_info :: "ModelLoader \<Rightarrow> py_dict option" where
  "get_model_info self =
     (case loaded_model self of
        None \<Rightarrow> None
      | Some m \<Rightarrow>
          (let info = [(''model_type'', PyStr (type_name m)), (''model_class'', PyStr (type_repr m))];
               info = set_if_present ''n_estimators'' (n_estimators m) PyInt info;
               info = set_if_present ''max_depth'' (max_depth m) py_of_depth info;
               info = set_if_present ''n_features'' (n_features_in m) PyInt info;
               info = set_if_present ''feature_names'' (feature_names_in m) (\<lambda>ns. PyList (map PyStr ns)) info;
               info = set_if_present ''classes'' (classes_attr m) PyList info
           in Some info))"

text \<open>
  Python's \<open>set(v)\<close>: a list of hashable values or a string can be turned into a set,
  anything else raises \<open>TypeError\<close>.
\<close>

fun hashable :: "pyval \<Rightarrow> bool" where
  "hashable (PyList xs) = False"
| "hashable v = True"

fun py_set :: "pyval \<Rightarrow> py_error + pyval set" where
  "py_set (PyList xs) = (if list_all hashable xs then Inr (set xs) else Inl TypeError)"
| "py_set (PyStr s) = Inr ((\<lambda>c. PyStr [c]) ` set s)"
| "py_set v = Inl TypeError"

definition validate_model_compatibility :: "ModelLoader \<Rightarrow> py_error + bool" where
  "validate_model_compatibility self =
     (case loaded_model self of
        None \<Rightarrow> Inr False
      | Some m \<Rightarrow>
          (case get_model_info self of
             None \<Rightarrow> Inl TypeError
           | Some model_info \<Rightarrow>
               (if (case map_of model_info ''n_features'' of
                      None \<Rightarrow> False
                    | Some expected_features \<Rightarrow>
                        expected_features \<noteq> PyInt (int (length (bands_selected self))))
                then Inr False
                else
                  (case map_of model_info ''feature_names'' of
                     None \<Rightarrow> Inr True
                   | Some names \<Rightarrow>
                       (case py_set names of
                          Inl e \<Rightarrow> Inl e
                        | Inr model_features \<Rightarrow>
                            (case py_set (PyList (map PyStr (bands_selected self))) of
                               Inl e \<Rightarrow> Inl e
                             | Inr selected_features \<Rightarrow>
                                 (if model_features \<noteq> selected_features then Inr False
                                  else Inr True)))))))"

text \<open>
  The constructor is called before the \<open>try\<close> of \<open>create_ee_model\<close>, so an exception
  it raises leaves the method; an exception of \<open>.train(...)\<close> is caught and turned
  into the result \<open>None\<close>.
\<close>

definition create_ee_model ::
  "environment \<Rightarrow> ModelLoader \<Rightarrow> feature list \<Rightarrow>
     py_error + (ee_classifier option \<times> ModelLoader)" where
  "create_ee_model env self training_data =
     (case loaded_model self of
        None \<Rightarrow> Inr (None, self)
      | Some m \<Rightarrow>
          (case
             (if is_random_forest m then
                (let n_trees = (case n_estimators m of Some n \<Rightarrow> n | None \<Rightarrow> 100);
                     depth = (case max_depth m of Some d \<Rightarrow> d | None \<Rightarrow> None)
                 in (case depth of
                       Some d \<Rightarrow>
                         (if d \<noteq> 0
                          then smileRandomForest [] [(''numberOfTrees'', n_trees), (''maxDepth'', d)]
                          else smileRandomForest [] [(''numberOfTrees'', n_trees)])
                     | None \<Rightarrow> smileRandomForest [] [(''numberOfTrees'', n_trees)]))
              else smileRandomForest [100] [])
           of
             Inl e \<Rightarrow> Inl e
           | Inr c \<Rightarrow>
               (let self1 = self\<lparr>ee_model := Some c\<rparr>
                in (case ee_train env c training_data ''FaseNumerik'' (bands_selected self) of
                      Inr t \<Rightarrow> Inr (Some t, self1\<lparr>ee_model := Some t\<rparr>)
                    | Inl e \<Rightarrow> Inr (None, self1)))))"

section \<open>model\_loader\_utils.py: module-level helpers\<close>

text \<open>
  Of everything the code prints, the model keeps the messages that tell the paths apart:
  the advisory line of \<open>load_and_create_ee_model\<close>, the two possible last lines of
  \<open>create_fallback_model\<close> and the line \<open>clear_layers\<close> leaves in the output widget.
\<close>

datatype message =
    ContinueDespiteWarning
  | FallbackAccuracy real
  | FallbackNoAccuracy
  | LayersCleared

definition load_and_create_ee_model ::
  "environment \<Rightarrow> string \<Rightarrow> string list \<Rightarrow> feature list \<Rightarrow>
     py_error + ((sk_model option \<times> ee_classifier option) \<times> message list)" where
  "load_and_create_ee_model env path bands training_data =
     (let loader = ModelLoader_init path bands;
          (ok, calls, loader) = load_model env loader
      in if \<not> ok then Inr ((None, None), [])
         else
           (case validate_model_compatibility loader of
              Inl e \<Rightarrow> Inl e
            | Inr compatible \<Rightarrow>
                (let printed = (if \<not> compatible then [ContinueDespiteWarning] else [])
                 in (case create_ee_model env loader training_data of
                       Inl e \<Rightarrow> Inl e
                     | Inr (ee_m, loader) \<Rightarrow> Inr ((loaded_model loader, ee_m), printed)))))"






section \<open>The two scripts: configuration and label conversion\<close>

definition BANDS_SELECTED :: "string list" where
  "BANDS_SELECTED = [''API'', ''NDPI'', ''RPI'', ''RVI'', ''VH_int'', ''VV_int'', ''angle'']"

definition MODEL_PATH :: string where
  "MODEL_PATH = ''/content/rf_model.pkl''"

text \<open>
  The platform's \<open>String.toLowerCase\<close> and \<open>String.trim\<close> on byte strings: letters
  \<open>A\<close> to \<open>Z\<close> are mapped to \<open>a\<close> to \<open>z\<close>, and \<open>trim\<close> removes the characters
  up to the space (code 32) from both ends.
\<close>

definition lower_char :: "char \<Rightarrow> char" where
  "lower_char c =
     (let n = (of_char c :: nat) in if 65 \<le> n \<and> n \<le> 90 then char_of (n + 32) else c)"

definition toLowerCase :: "string \<Rightarrow> string" where
  "toLowerCase s = map lower_char s"

definition is_blank :: "char \<Rightarrow> bool" where
  "is_blank c = ((of_char c :: nat) \<le> 32)"

definition trim :: "string \<Rightarrow> string" where
  "trim s = rev (dropWhile is_blank (rev (dropWhile is_blank s)))"

text \<open>The nested \<open>ee.Algorithms.If\<close> of both scripts.\<close>

definition fase_numerik :: "string \<Rightarrow> int" where
  "fase_numerik fase_string =
     (if fase_string = ''vegetatif 1'' then 1
      else if fase_string = ''vegetatif 2'' then 2
      else if fase_string = ''generatif'' then 3
      else if fase_string = ''panen'' then 4
      else if fase_string = ''bera'' then 5
      else 0)"

text \<open>
  \<open>ee.String(feature.get('Fase'))\<close> needs a string property; for a feature without one
  the platform reports an error when the collection is evaluated.
\<close>

definition konversi_label_numerik :: "feature \<Rightarrow> py_error + feature" where
  "konversi_label_numerik feature =
     (case map_of feature ''Fase'' of
        Some (EE_String fase) \<Rightarrow>
          (let fase_string = trim (toLowerCase fase)
           in Inr (AList.update ''FaseNumerik'' (EE_Number (of_int (fase_numerik fase_string))) feature))
      | _ \<Rightarrow> Inl EEException)"

section \<open>rice\_classification\_optimized.py: choosing the classifier\<close>



section \<open>rice\_classification\_with\_existing\_model.py: choosing the classifier\<close>




section \<open>Both scripts: classifying the collection\<close>

text \<open>
  An image has named bands and properties; the pixel data of a band is left abstract.
  The platform supplies the pixels of a classification, the properties a classified
  image starts with, and the formatting of a timestamp as a date.
\<close>

record 'px ee_image =
  bands :: "(string \<times> 'px) list"
  properties :: "(string \<times> ee_value) list"

record 'px platform =
  predict :: "ee_classifier \<Rightarrow> 'px ee_image \<Rightarrow> 'px"
  classified_properties :: "'px ee_image \<Rightarrow> (string \<times> ee_value) list"
  date_format :: "string \<Rightarrow> real \<Rightarrow> string"

definition classify :: "'px platform \<Rightarrow> ee_classifier \<Rightarrow> 'px ee_image \<Rightarrow> 'px ee_image" where
  "classify P m img =
     \<lparr>bands = [(''classification'', predict P m img)], properties = classified_properties P img\<rparr>"

definition rename :: "string list \<Rightarrow> 'px ee_image \<Rightarrow> py_error + 'px ee_image" where
  "rename names img =
     (if length names = length (bands img)
      then Inr (img\<lparr>bands := zip names (map snd (bands img))\<rparr>)
      else Inl EEException)"

definition set_property :: "string \<Rightarrow> ee_value \<Rightarrow> 'px ee_image \<Rightarrow> 'px ee_image" where
  "set_property k v img = img\<lparr>properties := AList.update k v (properties img)\<rparr>"

text \<open>
  \<open>klasifikasi_image\<close> reads \<open>system:time_start\<close> as the number of milliseconds
  that \<open>ee.Date\<close> expects; an image without such a number is mapped to an error
  value.
\<close>

definition klasifikasi_image ::
  "'px platform \<Rightarrow> ee_classifier \<Rightarrow> 'px ee_image \<Rightarrow> py_error + 'px ee_image" where
  "klasifikasi_image P model img =
     (case rename [''classification''] (classify P model img) of
        Inl e \<Rightarrow> Inl e
      | Inr classified \<Rightarrow>
          (case map_of (properties img) ''system:time_start'' of
             Some (EE_Number t) \<Rightarrow>
               Inr (set_property ''tanggal'' (EE_String (date_format P ''YYYY-MM-dd'' t))
                      (set_property ''system:time_start'' (EE_Number t) classified))
           | _ \<Rightarrow> Inl EEException))"

fun map_collection :: "('a \<Rightarrow> py_error + 'b) \<Rightarrow> 'a list \<Rightarrow> py_error + 'b list" where
  "map_collection f [] = Inr []"
| "map_collection f (x # xs) =
     (case f x of
        Inl e \<Rightarrow> Inl e
      | Inr y \<Rightarrow> (case map_collection f xs of Inl e \<Rightarrow> Inl e | Inr ys \<Rightarrow> Inr (y # ys)))"

definition klasifikasi_collection ::
  "'px platform \<Rightarrow> ee_classifier \<Rightarrow> 'px ee_image list \<Rightarrow> py_error + 'px ee_image list" where
  "klasifikasi_collection P model collection = map_collection (klasifikasi_image P model) collection"

section \<open>rice\_classification\_optimized.py: the clear\_layers callback\<close>

text \<open>
  The map's layers as the dictionary the callback reads (\<open>Map.layers.keys()\<close>), and
  the content of the output widget.
\<close>

record 'l ui_state =
  Map_layers :: "(string \<times> 'l) list"
  output_widget :: "message list"

definition remove_layer :: "string \<Rightarrow> (string \<times> 'l) list \<Rightarrow> (string \<times> 'l) list" where
  "remove_layer name ls = AList.delete name ls"

definition clear_layers :: "'l ui_state \<Rightarrow> 'l ui_state" where
  "clear_layers ui =
     (let layer_names = map fst (Map_layers ui);
          ls = fold (\<lambda>name ls.
                       if sublist ''Klasifikasi'' name \<and> name \<noteq> ''Klasifikasi Mean''
                       then remove_layer name ls else ls)
                    layer_names (Map_layers ui)
      in \<lparr>Map_layers = ls, output_widget = [LayersCleared]\<rparr>)"

section \<open>Concrete inputs\<close>

text \<open>
  A pickled random forest whose feature names are the configured bands in reverse
  order, and an environment built from the outcome of the two deserialisers and of the
  training request.
\<close>

definition example_forest :: sk_model where
  "example_forest =
     \<lparr>type_name = ''RandomForestClassifier'',
      type_repr = ''sklearn.ensemble.RandomForestClassifier'',
      is_random_forest = True,
      n_estimators = Some 50,
      max_depth = Some (Some 12),
      n_features_in = Some 7,
      feature_names_in = Some [''angle'', ''VV_int'', ''VH_int'', ''RVI'', ''RPI'', ''NDPI'', ''API''],
      classes_attr = Some [PyInt 1, PyInt 2, PyInt 3, PyInt 4, PyInt 5]\<rparr>"

definition example_env ::
  "(py_error + sk_model option) \<Rightarrow> (py_error + sk_model option) \<Rightarrow> bool \<Rightarrow> environment" where
  "example_env p j r =
     \<lparr>pickle_load = (\<lambda>path. p), joblib_load = (\<lambda>path. j), train_raises = (\<lambda>c. r),
      accuracy = (\<lambda>fs c. Inr (9 / 10)),
      random_value = (\<lambda>seed i f. if even i then 1 / 2 else 9 / 10)\<rparr>"

definition example_loader :: "sk_model \<Rightarrow> ModelLoader" where
  "example_loader m = (ModelLoader_init MODEL_PATH BANDS_SELECTED)\<lparr>loaded_model := Some m\<rparr>"

text \<open>
  Variants of the forest (scikit-learn's default depth \<open>None\<close>, a feature count that
  does not match the bands), environments in which unpickling returns a given object or
  no file can be read, and a small feature table.
\<close>

definition default_depth_forest :: sk_model where
  "default_depth_forest = example_forest\<lparr>max_depth := Some None\<rparr>"

definition env_pickled :: "sk_model option \<Rightarrow> environment" where
  "env_pickled obj = example_env (Inr obj) (Inl UnpicklingError) False"

definition env_unreadable :: environment where
  "env_unreadable = example_env (Inl FileNotFoundError) (Inl FileNotFoundError) False"

definition example_rows :: "feature list" where
  "example_rows =
     [[(''API'', EE_Number 1), (''FaseNumerik'', EE_Number 1)],
      [(''API'', EE_Number 2), (''FaseNumerik'', EE_Number 3)],
      [(''API'', EE_Number 3), (''FaseNumerik'', EE_Number 5)]]"

definition mismatched_forest :: sk_model where
  "mismatched_forest = default_depth_forest\<lparr>n_features_in := Some 6\<rparr>"




text \<open>
  Two training points, a platform whose classification of an image is its number of
  bands, a collection of two images, and a map with base layer, training points,
  mean classification, legend and two date-range layers.
\<close>

definition example_point :: feature where
  "example_point = [(''Fase'', EE_String ''  Vegetatif 1 ''), (''id'', EE_Number 17)]"

definition example_point_other :: feature where
  "example_point_other = [(''Fase'', EE_String ''Tidak Diketahui'')]"

definition example_platform :: "nat platform" where
  "example_platform =
     \<lparr>predict = (\<lambda>m img. length (bands img)),
      classified_properties = (\<lambda>img. []),
      date_format = (\<lambda>pattern t. if t = 1704067200000 then ''2024-01-01'' else ''2024-01-13'')\<rparr>"

definition example_collection :: "nat ee_image list" where
  "example_collection =
     [\<lparr>bands = [(''API'', 0), (''NDPI'', 1)],
       properties = [(''system:time_start'', EE_Number 1704067200000)]\<rparr>,
      \<lparr>bands = [(''API'', 5)],
       properties = [(''orbit'', EE_String ''ASCENDING''), (''system:time_start'', EE_Number 1705104000000)]\<rparr>]"

definition example_ui :: "nat ui_state" where
  "example_ui =
     \<lparr>Map_layers =
        [(''OpenStreetMap'', 0), (''Titik Pelatihan'', 1), (''Klasifikasi Mean'', 2),
         (''Klasifikasi 2024-01-01 s.d. 2024-12-31'', 3), (''Legenda'', 4),
         (''Klasifikasi 2024-06-01 s.d. 2024-08-31'', 5)],
      output_widget = []\<rparr>"

lemma example_forest_simps:
  "is_random_forest example_forest"
  "n_estimators example_forest = Some 50"
  "max_depth example_forest = Some (Some 12)"
  "n_features_in example_forest = Some 7"
  "feature_names_in example_forest = Some (rev BANDS_SELECTED)"
  by (simp_all add: example_forest_def BANDS_SELECTED_def)

lemma example_env_simps:
  "pickle_load (example_env p j r) path = p"
  "joblib_load (example_env p j r) path = j"
  "train_raises (example_env p j r) c = r"
  "accuracy (example_env p j r) fs c = Inr (9 / 10)"
  "random_value (example_env p j r) seed i f = (if even i then 1 / 2 else 9 / 10)"
  by (simp_all add: example_env_def)

lemma example_loader_simps:
  "loaded_model (example_loader m) = Some m"
  "bands_selected (example_loader m) = BANDS_SELECTED"
  "model_path (example_loader m) = MODEL_PATH"
  by (simp_all add: example_loader_def ModelLoader_init_def)

section \<open>Calls of the constructor\<close>

lemma smileRandomForest_positional:
  "smileRandomForest [n] [] = Inr \<lparr>numberOfTrees = n, parameters = [], trained = None\<rparr>"
  by (simp add: smileRandomForest_def smileRandomForest_parameters_def AList.delete_eq)

lemma smileRandomForest_numberOfTrees:
  "smileRandomForest [] [(''numberOfTrees'', n)] =
     Inr \<lparr>numberOfTrees = n, parameters = [], trained = None\<rparr>"
  by (simp add: smileRandomForest_def smileRandomForest_parameters_def AList.delete_eq)

lemma smileRandomForest_maxDepth:
  "smileRandomForest [] [(''numberOfTrees'', n), (''maxDepth'', d)] = Inl EEException"
  by (simp add: smileRandomForest_def smileRandomForest_parameters_def)

section \<open>Loading a model\<close>

text \<open>
  C2. \<open>load_model\<close> calls pickle first and joblib only after pickle has raised. When
  either call returns an object, the result is \<open>True\<close> and the object is stored in
  \<open>loaded_model\<close>; the result is \<open>False\<close> exactly when both calls raise, and then the
  loader is unchanged, so that \<open>loaded_model\<close> of a fresh loader is still unset.
\<close>

theorem load_model_pickle_then_joblib:
  "(case load_model env self of (ok, calls, self') \<Rightarrow>
      (\<forall>obj. pickle_load env (model_path self) = Inr obj \<longrightarrow>
         ok \<and> calls = [Pickle] \<and> self' = self\<lparr>loaded_model := obj\<rparr>) \<and>
      (\<forall>e obj. pickle_load env (model_path self) = Inl e \<and> joblib_load env (model_path self) = Inr obj \<longrightarrow>
         ok \<and> calls = [Pickle, Joblib] \<and> self' = self\<lparr>loaded_model := obj\<rparr>) \<and>
      (Joblib \<in> set calls \<longleftrightarrow> isl (pickle_load env (model_path self))) \<and>
      (\<not> ok \<longleftrightarrow> isl (pickle_load env (model_path self)) \<and> isl (joblib_load env (model_path self))) \<and>
      (\<not> ok \<longrightarrow> self' = self)) \<and>
   loaded_model (ModelLoader_init path bs) = None"
  by (auto simp: load_model_def ModelLoader_init_def split: sum.splits)

theorem load_model_pickle_then_joblib_witness:
  "pickle_load (example_env (Inl FileNotFoundError) (Inr (Some example_forest)) False) MODEL_PATH = Inl FileNotFoundError \<and>
   joblib_load (example_env (Inl FileNotFoundError) (Inr (Some example_forest)) False) MODEL_PATH = Inr (Some example_forest) \<and>
   load_model (example_env (Inl FileNotFoundError) (Inr (Some example_forest)) False)
       (ModelLoader_init MODEL_PATH BANDS_SELECTED) =
     (True, [Pickle, Joblib], (ModelLoader_init MODEL_PATH BANDS_SELECTED)\<lparr>loaded_model := Some example_forest\<rparr>) \<and>
   fst (load_model (example_env (Inl FileNotFoundError) (Inl UnpicklingError) False)
       (ModelLoader_init MODEL_PATH BANDS_SELECTED)) = False"
  using load_model_pickle_then_joblib
    [of "example_env (Inl FileNotFoundError) (Inr (Some example_forest)) False"
        "ModelLoader_init MODEL_PATH BANDS_SELECTED" MODEL_PATH BANDS_SELECTED]
    load_model_pickle_then_joblib
    [of "example_env (Inl FileNotFoundError) (Inl UnpicklingError) False"
        "ModelLoader_init MODEL_PATH BANDS_SELECTED" MODEL_PATH BANDS_SELECTED]
  by (simp add: example_env_def ModelLoader_init_def split: prod.splits)

section \<open>Model information\<close>

lemma map_of_set_if_present:
  "map_of (set_if_present k a conv info) k' =
     (if k' = k \<and> a \<noteq> None then map_option conv a else map_of info k')"
  by (cases a) (simp_all add: set_if_present_def update_conv')

lemma keys_set_if_present:
  "fst ` set (set_if_present k a conv info) = (if a = None then {} else {k}) \<union> fst ` set info"
  by (cases a) (simp_all add: set_if_present_def dom_update)

lemma distinct_set_if_present:
  "distinct (map fst info) \<Longrightarrow> distinct (map fst (set_if_present k a conv info))"
  by (cases a) (simp_all add: set_if_present_def distinct_update)

text \<open>
  C7. \<open>get_model_info\<close> returns \<open>None\<close> exactly when no model is loaded. Otherwise it
  returns a dictionary with distinct keys that always has \<open>model_type\<close> and
  \<open>model_class\<close>, and has \<open>n_estimators\<close>, \<open>max_depth\<close>, \<open>n_features\<close>,
  \<open>feature_names\<close> and \<open>classes\<close> exactly for those of the five attributes that the
  loaded object has, each with the value of its attribute.
\<close>

theorem get_model_info_probes_attributes:
  "(get_model_info self = None \<longleftrightarrow> loaded_model self = None) \<and>
   (\<forall>m. loaded_model self = Some m \<longrightarrow>
      (\<exists>info. get_model_info self = Some info \<and>
         distinct (map fst info) \<and>
         fst ` set info =
           {''model_type'', ''model_class''}
           \<union> (if n_estimators m = None then {} else {''n_estimators''})
           \<union> (if max_depth m = None then {} else {''max_depth''})
           \<union> (if n_features_in m = None then {} else {''n_features''})
           \<union> (if feature_names_in m = None then {} else {''feature_names''})
           \<union> (if classes_attr m = None then {} else {''classes''}) \<and>
         map_of info ''model_type'' = Some (PyStr (type_name m)) \<and>
         map_of info ''model_class'' = Some (PyStr (type_repr m)) \<and>
         map_of info ''n_estimators'' = map_option PyInt (n_estimators m) \<and>
         map_of info ''max_depth'' = map_option py_of_depth (max_depth m) \<and>
         map_of info ''n_features'' = map_option PyInt (n_features_in m) \<and>
         map_of info ''feature_names'' = map_option (\<lambda>ns. PyList (map PyStr ns)) (feature_names_in m) \<and>
         map_of info ''classes'' = map_option PyList (classes_attr m)))"
proof (cases "loaded_model self")
  case None
  then show ?thesis by (simp add: get_model_info_def)
next
  case (Some m)
  let ?i0 = "[(''model_type'', PyStr (type_name m)), (''model_class'', PyStr (type_repr m))]"
  let ?i1 = "set_if_present ''n_estimators'' (n_estimators m) PyInt ?i0"
  let ?i2 = "set_if_present ''max_depth'' (max_depth m) py_of_depth ?i1"
  let ?i3 = "set_if_present ''n_features'' (n_features_in m) PyInt ?i2"
  let ?i4 = "set_if_present ''feature_names'' (feature_names_in m) (\<lambda>ns. PyList (map PyStr ns)) ?i3"
  let ?i5 = "set_if_present ''classes'' (classes_attr m) PyList ?i4"
  have g: "get_model_info self = Some ?i5"
    using Some by (simp add: get_model_info_def Let_def)
  have d: "distinct (map fst ?i5)"
    by (intro distinct_set_if_present) simp
  have k: "fst ` set ?i5 =
           {''model_type'', ''model_class''}
           \<union> (if n_estimators m = None then {} else {''n_estimators''})
           \<union> (if max_depth m = None then {} else {''max_depth''})
           \<union> (if n_features_in m = None then {} else {''n_features''})
           \<union> (if feature_names_in m = None then {} else {''feature_names''})
           \<union> (if classes_attr m = None then {} else {''classes''})"
    unfolding keys_set_if_present by auto
  have v: "map_of ?i5 ''model_type'' = Some (PyStr (type_name m))"
    "map_of ?i5 ''model_class'' = Some (PyStr (type_repr m))"
    "map_of ?i5 ''n_estimators'' = map_option PyInt (n_estimators m)"
    "map_of ?i5 ''max_depth'' = map_option py_of_depth (max_depth m)"
    "map_of ?i5 ''n_features'' = map_option PyInt (n_features_in m)"
    "map_of ?i5 ''feature_names'' = map_option (\<lambda>ns. PyList (map PyStr ns)) (feature_names_in m)"
    "map_of ?i5 ''classes'' = map_option PyList (classes_attr m)"
    by (simp_all add: map_of_set_if_present)
  show ?thesis using Some g d k v by simp
qed

theorem get_model_info_probes_attributes_witness:
  "loaded_model (example_loader example_forest) = Some example_forest \<and>
   (\<exists>info. get_model_info (example_loader example_forest) = Some info \<and>
      fst ` set info =
        {''model_type'', ''model_class'', ''n_estimators'', ''max_depth'', ''n_features'',
         ''feature_names'', ''classes''} \<and>
      map_of info ''n_estimators'' = Some (PyInt 50) \<and>
      map_of info ''max_depth'' = Some (PyInt 12))"
proof -
  let ?L = "example_loader example_forest"
  have l: "loaded_model ?L = Some example_forest"
    by (simp add: example_loader_def)
  from get_model_info_probes_attributes [of ?L] l
  obtain info where i: "get_model_info ?L = Some info"
    and k: "fst ` set info =
           {''model_type'', ''model_class''}
           \<union> (if n_estimators example_forest = None then {} else {''n_estimators''})
           \<union> (if max_depth example_forest = None then {} else {''max_depth''})
           \<union> (if n_features_in example_forest = None then {} else {''n_features''})
           \<union> (if feature_names_in example_forest = None then {} else {''feature_names''})
           \<union> (if classes_attr example_forest = None then {} else {''classes''})"
    and n: "map_of info ''n_estimators'' = map_option PyInt (n_estimators example_forest)"
    and d: "map_of info ''max_depth'' = map_option py_of_depth (max_depth example_forest)"
    by blast
  have a: "n_estimators example_forest = Some 50" "max_depth example_forest = Some (Some 12)"
    "n_features_in example_forest = Some 7"
    "feature_names_in example_forest = Some (rev BANDS_SELECTED)"
    "classes_attr example_forest = Some [PyInt 1, PyInt 2, PyInt 3, PyInt 4, PyInt 5]"
    by (simp_all add: example_forest_def BANDS_SELECTED_def)
  have "fst ` set info =
        {''model_type'', ''model_class'', ''n_estimators'', ''max_depth'', ''n_features'',
         ''feature_names'', ''classes''}"
    unfolding k by (simp add: a insert_commute)
  moreover have "map_of info ''n_estimators'' = Some (PyInt 50)"
    unfolding n by (simp add: a)
  moreover have "map_of info ''max_depth'' = Some (PyInt 12)"
    unfolding d by (simp add: a py_of_depth_def)
  ultimately show ?thesis using l i by blast
qed

section \<open>Compatibility with the configured bands\<close>

lemma get_model_info_lookup:
  assumes "loaded_model self = Some m"
  shows "\<exists>info. get_model_info self = Some info \<and>
           map_of info ''n_features'' = map_option PyInt (n_features_in m) \<and>
           map_of info ''feature_names'' = map_option (\<lambda>ns. PyList (map PyStr ns)) (feature_names_in m)"
  using assms by (simp add: get_model_info_def Let_def map_of_set_if_present)

lemma hashable_names: "list_all hashable (map PyStr ns)"
  by (induction ns) simp_all

lemma PyStr_image_eq: "PyStr ` A = PyStr ` B \<longleftrightarrow> A = B"
  by (rule inj_image_eq_iff) (simp add: inj_on_def)

lemma validate_model_compatibility_Some:
  assumes "loaded_model self = Some m"
  shows "validate_model_compatibility self =
           Inr (\<not> ((\<exists>n. n_features_in m = Some n \<and> n \<noteq> int (length (bands_selected self))) \<or>
                    (\<exists>ns. feature_names_in m = Some ns \<and> set ns \<noteq> set (bands_selected self))))"
proof -
  obtain info where i: "get_model_info self = Some info"
    "map_of info ''n_features'' = map_option PyInt (n_features_in m)"
    "map_of info ''feature_names'' = map_option (\<lambda>ns. PyList (map PyStr ns)) (feature_names_in m)"
    using get_model_info_lookup [OF assms] by blast
  show ?thesis
    unfolding validate_model_compatibility_def
    using assms i
    by (cases "n_features_in m"; cases "feature_names_in m")
       (simp_all add: hashable_names PyStr_image_eq)
qed

text \<open>
  C4. \<open>validate_model_compatibility\<close> returns \<open>False\<close> when no model is loaded. For a
  loaded model it returns \<open>False\<close> exactly when the model has a feature count
  different from the number of configured bands, or has feature names whose set differs
  from the set of configured bands, and \<open>True\<close> in every other case; it never raises.
\<close>

theorem validate_model_compatibility_cases:
  "(loaded_model self = None \<longrightarrow> validate_model_compatibility self = Inr False) \<and>
   (\<forall>m. loaded_model self = Some m \<longrightarrow>
      validate_model_compatibility self =
        Inr (\<not> ((\<exists>n. n_features_in m = Some n \<and> n \<noteq> int (length (bands_selected self))) \<or>
                 (\<exists>ns. feature_names_in m = Some ns \<and> set ns \<noteq> set (bands_selected self)))))"
  using validate_model_compatibility_Some [of self]
  by (simp add: validate_model_compatibility_def)

theorem validate_model_compatibility_cases_witness:
  "loaded_model (example_loader example_forest) = Some example_forest \<and>
   validate_model_compatibility (example_loader example_forest) = Inr True \<and>
   loaded_model (ModelLoader_init MODEL_PATH BANDS_SELECTED) = None \<and>
   validate_model_compatibility (ModelLoader_init MODEL_PATH BANDS_SELECTED) = Inr False"
proof -
  let ?L = "example_loader example_forest"
  have l: "loaded_model ?L = Some example_forest"
    by (simp add: example_loader_def)
  have b: "bands_selected ?L = BANDS_SELECTED"
    by (simp add: example_loader_def ModelLoader_init_def)
  have n: "n_features_in example_forest = Some 7"
    and f: "feature_names_in example_forest = Some (rev BANDS_SELECTED)"
    by (simp_all add: example_forest_def BANDS_SELECTED_def)
  have len: "int (length BANDS_SELECTED) = 7"
    by (simp add: BANDS_SELECTED_def)
  have "validate_model_compatibility ?L = Inr True"
    using validate_model_compatibility_cases [of ?L] l
    by (simp add: b n f len)
  moreover have e: "loaded_model (ModelLoader_init MODEL_PATH BANDS_SELECTED) = None"
    by (simp add: ModelLoader_init_def)
  moreover have "validate_model_compatibility (ModelLoader_init MODEL_PATH BANDS_SELECTED) = Inr False"
    using validate_model_compatibility_cases [of "ModelLoader_init MODEL_PATH BANDS_SELECTED"] e
    by simp
  ultimately show ?thesis using l by simp
qed

text \<open>
  C9. The feature names are compared as sets: when the names of the loaded model are
  a permutation of the configured bands and the feature count, if the model has one,
  equals the number of bands, the validation succeeds, whatever the order of the names.
\<close>

theorem validate_model_compatibility_order_insensitive:
  assumes "loaded_model self = Some m"
    and "feature_names_in m = Some ns"
    and "mset ns = mset (bands_selected self)"
    and "\<forall>n. n_features_in m = Some n \<longrightarrow> n = int (length (bands_selected self))"
  shows "validate_model_compatibility self = Inr True"
proof -
  have "set ns = set (bands_selected self)"
    using assms(3) by (rule mset_eq_setD)
  then show ?thesis
    using assms(2,4) by (simp add: validate_model_compatibility_Some [OF assms(1)])
qed

theorem validate_model_compatibility_order_insensitive_witness:
  "feature_names_in example_forest = Some (rev BANDS_SELECTED) \<and>
   rev BANDS_SELECTED \<noteq> BANDS_SELECTED \<and>
   mset (rev BANDS_SELECTED) = mset (bands_selected (example_loader example_forest)) \<and>
   validate_model_compatibility (example_loader example_forest) = Inr True"
proof -
  have l: "loaded_model (example_loader example_forest) = Some example_forest"
    by (simp add: example_loader_def)
  have b: "bands_selected (example_loader example_forest) = BANDS_SELECTED"
    by (simp add: example_loader_def ModelLoader_init_def)
  have n: "feature_names_in example_forest = Some (rev BANDS_SELECTED)"
    by (simp add: example_forest_def BANDS_SELECTED_def)
  have p: "mset (rev BANDS_SELECTED) = mset (bands_selected (example_loader example_forest))"
    by (simp add: b)
  have len: "int (length BANDS_SELECTED) = 7"
    by (simp add: BANDS_SELECTED_def)
  have f7: "n_features_in example_forest = Some 7"
    by (simp add: example_forest_def)
  have c: "\<forall>n. n_features_in example_forest = Some n \<longrightarrow>
             n = int (length (bands_selected (example_loader example_forest)))"
    by (simp add: b len f7)
  have d: "rev BANDS_SELECTED \<noteq> BANDS_SELECTED"
    by (simp add: BANDS_SELECTED_def)
  show ?thesis
    using validate_model_compatibility_order_insensitive [OF l n p c] n p d by simp
qed

section \<open>Creating the remote classifier\<close>

lemma create_ee_model_trees:
  assumes "loaded_model self = Some m"
    and "is_random_forest m \<longrightarrow> n_estimators m = Some n \<and> (max_depth m = None \<or> max_depth m = Some None)"
    and "\<not> is_random_forest m \<longrightarrow> n = 100"
  shows "create_ee_model env self td =
     Inr (let t = \<lparr>numberOfTrees = n, parameters = [],
             trained = Some \<lparr>features = td, classProperty = ''FaseNumerik'',
                             inputProperties = bands_selected self\<rparr>\<rparr>
          in if train_raises env t
             then (None, self\<lparr>ee_model := Some \<lparr>numberOfTrees = n, parameters = [], trained = None\<rparr>\<rparr>)
             else (Some t, self\<lparr>ee_model := Some t\<rparr>))"
proof (cases "is_random_forest m")
  case False
  then show ?thesis using assms
    by (simp add: create_ee_model_def ee_train_def smileRandomForest_positional Let_def)
next
  case True
  with assms(2) have n: "n_estimators m = Some n" and d: "max_depth m = None \<or> max_depth m = Some None"
    by simp_all
  from d show ?thesis
  proof
    assume "max_depth m = None"
    then show ?thesis using assms(1) True n
      by (simp add: create_ee_model_def ee_train_def smileRandomForest_numberOfTrees Let_def)
  next
    assume "max_depth m = Some None"
    then show ?thesis using assms(1) True n
      by (simp add: create_ee_model_def ee_train_def smileRandomForest_numberOfTrees Let_def)
  qed
qed

text \<open>
  \<open>maxDepth\<close> is not a parameter of the constructor. For a loaded random forest whose
  \<open>max_depth\<close> is a non-zero integer, \<open>create_ee_model\<close> passes it as the keyword
  \<open>maxDepth\<close>, the constructor raises, and since the call stands before the \<open>try\<close>
  the method raises as well: no classifier is created for such a forest.
\<close>

lemma create_ee_model_depth_keyword_raises:
  assumes "loaded_model self = Some m" and "is_random_forest m"
    and "max_depth m = Some (Some d)" and "d \<noteq> 0"
  shows "create_ee_model env self td = Inl EEException"
  using assms
  by (simp add: create_ee_model_def smileRandomForest_maxDepth Let_def)



lemma default_depth_forest_simps:
  "is_random_forest default_depth_forest"
  "n_estimators default_depth_forest = Some 50"
  "max_depth default_depth_forest = Some None"
  "n_features_in default_depth_forest = Some 7"
  by (simp_all add: default_depth_forest_def example_forest_simps)



section \<open>The helper load\_and\_create\_ee\_model\<close>

lemma validate_model_compatibility_returns:
  "\<exists>b. validate_model_compatibility self = Inr b"
proof (cases "loaded_model self")
  case None
  then show ?thesis by (auto simp: validate_model_compatibility_def)
next
  case (Some m)
  then show ?thesis by (simp add: validate_model_compatibility_Some)
qed

lemma load_model_fails:
  assumes "isl (pickle_load env (model_path self))" and "isl (joblib_load env (model_path self))"
  shows "load_model env self = (False, [Pickle, Joblib], self)"
  using assms by (auto simp: load_model_def isl_def)

lemma load_model_loads:
  assumes "pickle_load env (model_path self) = Inr obj \<or>
           (isl (pickle_load env (model_path self)) \<and> joblib_load env (model_path self) = Inr obj)"
  shows "\<exists>calls. load_model env self = (True, calls, self\<lparr>loaded_model := obj\<rparr>)"
  using assms by (auto simp: load_model_def isl_def)

lemma model_path_init: "model_path (ModelLoader_init path bs) = path"
  by (simp add: ModelLoader_init_def)

lemma create_ee_model_keeps_loaded:
  assumes "create_ee_model env self td = Inr (r, ldr)"
  shows "loaded_model ldr = loaded_model self"
  using assms
  by (auto simp: create_ee_model_def Let_def split: option.splits sum.splits)

lemma create_ee_model_unloaded:
  assumes "loaded_model self = None"
  shows "create_ee_model env self td = Inr (None, self)"
  using assms by (simp add: create_ee_model_def)

lemma load_and_create_ee_model_loaded:
  assumes "pickle_load env path = Inr obj \<or> (isl (pickle_load env path) \<and> joblib_load env path = Inr obj)"
  shows "\<exists>compatible.
         validate_model_compatibility ((ModelLoader_init path bs)\<lparr>loaded_model := obj\<rparr>) = Inr compatible \<and>
         load_and_create_ee_model env path bs td =
           (case create_ee_model env ((ModelLoader_init path bs)\<lparr>loaded_model := obj\<rparr>) td of
              Inl e \<Rightarrow> Inl e
            | Inr (ee_m, ldr) \<Rightarrow>
                Inr ((obj, ee_m), if compatible then [] else [ContinueDespiteWarning]))"
proof -
  let ?L = "ModelLoader_init path bs"
  obtain calls where l: "load_model env ?L = (True, calls, ?L\<lparr>loaded_model := obj\<rparr>)"
    using load_model_loads [of env ?L obj] assms by (auto simp: model_path_init)
  obtain b where v: "validate_model_compatibility (?L\<lparr>loaded_model := obj\<rparr>) = Inr b"
    using validate_model_compatibility_returns by blast
  have "load_and_create_ee_model env path bs td =
           (case create_ee_model env (?L\<lparr>loaded_model := obj\<rparr>) td of
              Inl e \<Rightarrow> Inl e
            | Inr (ee_m, ldr) \<Rightarrow>
                Inr ((obj, ee_m), if b then [] else [ContinueDespiteWarning]))"
  proof (cases "create_ee_model env (?L\<lparr>loaded_model := obj\<rparr>) td")
    case (Inl e)
    then show ?thesis using l v by (simp add: load_and_create_ee_model_def)
  next
    case (Inr res)
    obtain ee_m ldr where res: "res = (ee_m, ldr)" by (cases res)
    have "loaded_model ldr = obj"
      using create_ee_model_keeps_loaded [of env "?L\<lparr>loaded_model := obj\<rparr>" td ee_m ldr] Inr res
      by simp
    then show ?thesis using l v Inr res by (simp add: load_and_create_ee_model_def)
  qed
  with v show ?thesis by blast
qed

text \<open>
  C8 (as amended). A failed validation is advisory. \<open>load_and_create_ee_model\<close> returns
  \<open>(None, None)\<close> without the advisory line when both deserialisers raise. When a
  deserialiser returned an object, the outcome of the validation only decides whether
  the advisory line is printed: the function goes on to \<open>create_ee_model\<close> and returns
  the object together with what that call returned. So \<open>(None, None)\<close> is returned in
  exactly two ways: both deserialisers raised, or the deserialised object is Python's
  \<open>None\<close>, and then the advisory line has been printed.
\<close>

theorem load_and_create_ee_model_validation_advisory:
  "(isl (pickle_load env path) \<and> isl (joblib_load env path) \<longrightarrow>
      load_and_create_ee_model env path bs td = Inr ((None, None), [])) \<and>
   (\<forall>obj. pickle_load env path = Inr obj \<or> (isl (pickle_load env path) \<and> joblib_load env path = Inr obj) \<longrightarrow>
      (\<exists>compatible.
         validate_model_compatibility ((ModelLoader_init path bs)\<lparr>loaded_model := obj\<rparr>) = Inr compatible \<and>
         load_and_create_ee_model env path bs td =
           (case create_ee_model env ((ModelLoader_init path bs)\<lparr>loaded_model := obj\<rparr>) td of
              Inl e \<Rightarrow> Inl e
            | Inr (ee_m, ldr) \<Rightarrow>
                Inr ((obj, ee_m), if compatible then [] else [ContinueDespiteWarning])))) \<and>
   (\<forall>printed. load_and_create_ee_model env path bs td = Inr ((None, None), printed) \<longrightarrow>
      (isl (pickle_load env path) \<and> isl (joblib_load env path) \<and> printed = []) \<or>
      ((pickle_load env path = Inr None \<or> (isl (pickle_load env path) \<and> joblib_load env path = Inr None)) \<and>
       printed = [ContinueDespiteWarning]))"
proof -
  let ?L = "ModelLoader_init path bs"
  have failed: "load_and_create_ee_model env path bs td = Inr ((None, None), [])"
    if "isl (pickle_load env path)" "isl (joblib_load env path)"
    using load_model_fails [of env ?L] that
    by (simp add: model_path_init load_and_create_ee_model_def)
  have only: "(isl (pickle_load env path) \<and> isl (joblib_load env path) \<and> printed = []) \<or>
      ((pickle_load env path = Inr None \<or> (isl (pickle_load env path) \<and> joblib_load env path = Inr None)) \<and>
       printed = [ContinueDespiteWarning])"
    if r: "load_and_create_ee_model env path bs td = Inr ((None, None), printed)" for printed
  proof (cases "isl (pickle_load env path) \<and> isl (joblib_load env path)")
    case True
    with failed r show ?thesis by simp
  next
    case False
    then obtain obj where
      o: "pickle_load env path = Inr obj \<or> (isl (pickle_load env path) \<and> joblib_load env path = Inr obj)"
      by (cases "pickle_load env path"; cases "joblib_load env path") auto
    from load_and_create_ee_model_loaded [OF o, of bs td] obtain compatible where
      v: "validate_model_compatibility (?L\<lparr>loaded_model := obj\<rparr>) = Inr compatible"
      and e: "load_and_create_ee_model env path bs td =
           (case create_ee_model env (?L\<lparr>loaded_model := obj\<rparr>) td of
              Inl e \<Rightarrow> Inl e
            | Inr (ee_m, ldr) \<Rightarrow>
                Inr ((obj, ee_m), if compatible then [] else [ContinueDespiteWarning]))"
      by blast
    from r e have n: "obj = None" and q: "printed = (if compatible then [] else [ContinueDespiteWarning])"
      by (auto split: sum.splits prod.splits)
    from v n have "compatible = False"
      by (simp add: validate_model_compatibility_def)
    with o n q show ?thesis by simp
  qed
  from failed load_and_create_ee_model_loaded only show ?thesis
    by (intro conjI allI impI) blast+
qed

lemma mismatched_forest_simps:
  "is_random_forest mismatched_forest"
  "n_estimators mismatched_forest = Some 50"
  "max_depth mismatched_forest = Some None"
  "n_features_in mismatched_forest = Some 6"
  by (simp_all add: mismatched_forest_def default_depth_forest_simps)

lemma validate_mismatched_forest:
  "validate_model_compatibility (example_loader mismatched_forest) = Inr False"
proof -
  have len: "int (length BANDS_SELECTED) = 7"
    by (simp add: BANDS_SELECTED_def)
  show ?thesis
    by (simp add: validate_model_compatibility_Some [OF example_loader_simps(1)]
          example_loader_simps mismatched_forest_simps len)
qed

theorem load_and_create_ee_model_validation_advisory_witness:
  "pickle_load (env_pickled (Some mismatched_forest)) MODEL_PATH = Inr (Some mismatched_forest) \<and>
   validate_model_compatibility (example_loader mismatched_forest) = Inr False \<and>
   load_and_create_ee_model (env_pickled (Some mismatched_forest)) MODEL_PATH BANDS_SELECTED example_rows =
     Inr ((Some mismatched_forest,
           Some \<lparr>numberOfTrees = 50, parameters = [],
             trained = Some \<lparr>features = example_rows, classProperty = ''FaseNumerik'',
                             inputProperties = BANDS_SELECTED\<rparr>\<rparr>),
          [ContinueDespiteWarning]) \<and>
   isl (pickle_load env_unreadable MODEL_PATH) \<and>
   isl (joblib_load env_unreadable MODEL_PATH) \<and>
   load_and_create_ee_model env_unreadable MODEL_PATH BANDS_SELECTED example_rows = Inr ((None, None), [])"
proof -
  let ?E = "env_pickled (Some mismatched_forest)"
  let ?L = "example_loader mismatched_forest"
  have p: "pickle_load ?E MODEL_PATH = Inr (Some mismatched_forest)"
    by (simp add: env_pickled_def example_env_simps)
  have r: "train_raises ?E c = False" for c
    by (simp add: env_pickled_def example_env_simps)
  have L: "(ModelLoader_init MODEL_PATH BANDS_SELECTED)\<lparr>loaded_model := Some mismatched_forest\<rparr> = ?L"
    by (simp add: example_loader_def)
  have c: "create_ee_model ?E ?L example_rows =
     Inr (let t = \<lparr>numberOfTrees = 50, parameters = [],
             trained = Some \<lparr>features = example_rows, classProperty = ''FaseNumerik'',
                             inputProperties = bands_selected ?L\<rparr>\<rparr>
          in if train_raises ?E t
             then (None, ?L\<lparr>ee_model := Some \<lparr>numberOfTrees = 50, parameters = [], trained = None\<rparr>\<rparr>)
             else (Some t, ?L\<lparr>ee_model := Some t\<rparr>))"
    by (rule create_ee_model_trees [OF example_loader_simps(1)]) (simp_all add: mismatched_forest_simps)
  have u: "isl (pickle_load env_unreadable MODEL_PATH)" "isl (joblib_load env_unreadable MODEL_PATH)"
    by (simp_all add: env_unreadable_def example_env_simps)
  note t = load_and_create_ee_model_validation_advisory
  from t [of ?E MODEL_PATH BANDS_SELECTED example_rows, THEN conjunct2, THEN conjunct1, rule_format,
      OF disjI1 [OF p]]
  obtain compatible where
    v: "validate_model_compatibility ((ModelLoader_init MODEL_PATH BANDS_SELECTED)\<lparr>loaded_model := Some mismatched_forest\<rparr>) = Inr compatible"
    and e: "load_and_create_ee_model ?E MODEL_PATH BANDS_SELECTED example_rows =
           (case create_ee_model ?E ((ModelLoader_init MODEL_PATH BANDS_SELECTED)\<lparr>loaded_model := Some mismatched_forest\<rparr>) example_rows of
              Inl e \<Rightarrow> Inl e
            | Inr (ee_m, ldr) \<Rightarrow>
                Inr ((Some mismatched_forest, ee_m), if compatible then [] else [ContinueDespiteWarning]))"
    by (elim exE conjE) (rule that)
  from v have b: "compatible = False"
    unfolding L by (simp add: validate_mismatched_forest)
  have 1: "load_and_create_ee_model ?E MODEL_PATH BANDS_SELECTED example_rows =
     Inr ((Some mismatched_forest,
           Some \<lparr>numberOfTrees = 50, parameters = [],
             trained = Some \<lparr>features = example_rows, classProperty = ''FaseNumerik'',
                             inputProperties = BANDS_SELECTED\<rparr>\<rparr>),
          [ContinueDespiteWarning])"
    unfolding e L c b by (simp add: Let_def r example_loader_simps)
  have 2: "load_and_create_ee_model env_unreadable MODEL_PATH BANDS_SELECTED example_rows = Inr ((None, None), [])"
    using t [of env_unreadable MODEL_PATH BANDS_SELECTED example_rows, THEN conjunct1] u by simp
  from p validate_mismatched_forest 1 u 2 show ?thesis
    by (intro conjI)
qed

text \<open>
  C8 as stated fails for a file that holds a pickled \<open>None\<close>: pickle returns it without
  raising, \<open>load_model\<close> returns \<open>True\<close>, the advisory line is printed, and the helper
  still returns \<open>(None, None)\<close>.
\<close>

theorem load_and_create_ee_model_none_counterexample:
  "pickle_load (env_pickled None) MODEL_PATH = Inr None \<and>
   fst (load_model (env_pickled None) (ModelLoader_init MODEL_PATH BANDS_SELECTED)) = True \<and>
   load_and_create_ee_model (env_pickled None) MODEL_PATH BANDS_SELECTED example_rows =
     Inr ((None, None), [ContinueDespiteWarning])"
proof -
  let ?E = "env_pickled None"
  let ?L = "ModelLoader_init MODEL_PATH BANDS_SELECTED"
  have p: "pickle_load ?E MODEL_PATH = Inr None"
    by (simp add: env_pickled_def example_env_simps)
  have n: "?L\<lparr>loaded_model := None\<rparr> = ?L"
    by (simp add: ModelLoader_init_def)
  have l: "load_model ?E ?L = (True, [Pickle], ?L)"
    using p by (simp add: load_model_def model_path_init n)
  have u: "loaded_model ?L = None"
    by (simp add: ModelLoader_init_def)
  have v: "validate_model_compatibility ?L = Inr False"
    using u by (simp add: validate_model_compatibility_def)
  have 1: "load_and_create_ee_model ?E MODEL_PATH BANDS_SELECTED example_rows =
     Inr ((None, None), [ContinueDespiteWarning])"
    by (simp add: load_and_create_ee_model_def l v create_ee_model_unloaded [OF u] u)
  from p l 1 show ?thesis by simp
qed

section \<open>The fallback classifier\<close>











section \<open>Label conversion\<close>

lemma normalise_examples:
  "trim (toLowerCase ''  Vegetatif 1 '') = ''vegetatif 1''"
  "trim (toLowerCase ''Tidak Diketahui'') = ''tidak diketahui''"
  by code_simp+

text \<open>
  C3. For every training point whose property \<open>Fase\<close> is a string, the conversion
  succeeds and stores an integer code in \<open>FaseNumerik\<close>, leaving every other property
  as it was. With the string lowercased and then trimmed, \<open>vegetatif 1\<close> gives 1,
  \<open>vegetatif 2\<close> gives 2, \<open>generatif\<close> gives 3, \<open>panen\<close> gives 4, \<open>bera\<close> gives 5, and
  every other string gives 0.
\<close>

theorem konversi_label_numerik_codes:
  assumes "map_of feature ''Fase'' = Some (EE_String fase)"
  shows "\<exists>converted code.
           konversi_label_numerik feature = Inr converted \<and>
           map_of converted ''FaseNumerik'' = Some (EE_Number (of_int code)) \<and>
           (\<forall>k. k \<noteq> ''FaseNumerik'' \<longrightarrow> map_of converted k = map_of feature k) \<and>
           (trim (toLowerCase fase) = ''vegetatif 1'' \<longrightarrow> code = 1) \<and>
           (trim (toLowerCase fase) = ''vegetatif 2'' \<longrightarrow> code = 2) \<and>
           (trim (toLowerCase fase) = ''generatif'' \<longrightarrow> code = 3) \<and>
           (trim (toLowerCase fase) = ''panen'' \<longrightarrow> code = 4) \<and>
           (trim (toLowerCase fase) = ''bera'' \<longrightarrow> code = 5) \<and>
           (trim (toLowerCase fase) \<notin> {''vegetatif 1'', ''vegetatif 2'', ''generatif'', ''panen'', ''bera''} \<longrightarrow>
              code = 0)"
proof -
  let ?s = "trim (toLowerCase fase)"
  let ?c = "fase_numerik ?s"
  let ?f = "AList.update ''FaseNumerik'' (EE_Number (of_int ?c)) feature"
  have r: "konversi_label_numerik feature = Inr ?f"
    using assms by (simp add: konversi_label_numerik_def Let_def)
  have v: "map_of ?f ''FaseNumerik'' = Some (EE_Number (of_int ?c))"
    by (simp add: update_conv')
  have o: "\<forall>k. k \<noteq> ''FaseNumerik'' \<longrightarrow> map_of ?f k = map_of feature k"
    by (simp add: update_conv')
  have c1: "?s = ''vegetatif 1'' \<longrightarrow> ?c = 1"
    and c2: "?s = ''vegetatif 2'' \<longrightarrow> ?c = 2"
    and c3: "?s = ''generatif'' \<longrightarrow> ?c = 3"
    and c4: "?s = ''panen'' \<longrightarrow> ?c = 4"
    and c5: "?s = ''bera'' \<longrightarrow> ?c = 5"
    by (simp_all add: fase_numerik_def)
  have c0: "?s \<notin> {''vegetatif 1'', ''vegetatif 2'', ''generatif'', ''panen'', ''bera''} \<longrightarrow> ?c = 0"
    by (simp add: fase_numerik_def)
  from r v o c1 c2 c3 c4 c5 c0 show ?thesis
    by (intro exI [of _ ?f] exI [of _ ?c] conjI)
qed

theorem konversi_label_numerik_codes_witness:
  "map_of example_point ''Fase'' = Some (EE_String ''  Vegetatif 1 '') \<and>
   konversi_label_numerik example_point =
     Inr [(''Fase'', EE_String ''  Vegetatif 1 ''), (''id'', EE_Number 17), (''FaseNumerik'', EE_Number 1)] \<and>
   map_of example_point_other ''Fase'' = Some (EE_String ''Tidak Diketahui'') \<and>
   konversi_label_numerik example_point_other =
     Inr [(''Fase'', EE_String ''Tidak Diketahui''), (''FaseNumerik'', EE_Number 0)]"
proof -
  have p: "map_of example_point ''Fase'' = Some (EE_String ''  Vegetatif 1 '')"
    by (simp add: example_point_def)
  have q: "map_of example_point_other ''Fase'' = Some (EE_String ''Tidak Diketahui'')"
    by (simp add: example_point_other_def)
  from konversi_label_numerik_codes [OF p] obtain converted code where
    r: "konversi_label_numerik example_point = Inr converted"
    and c: "trim (toLowerCase ''  Vegetatif 1 '') = ''vegetatif 1'' \<longrightarrow> code = 1"
    and v: "map_of converted ''FaseNumerik'' = Some (EE_Number (of_int code))"
    by (elim exE conjE) (rule that)
  have code: "code = 1"
    using c by (simp add: normalise_examples)
  have "konversi_label_numerik example_point =
     Inr (AList.update ''FaseNumerik''
            (EE_Number (of_int (fase_numerik (trim (toLowerCase ''  Vegetatif 1 ''))))) example_point)"
    using p by (simp add: konversi_label_numerik_def Let_def)
  with r have "converted = AList.update ''FaseNumerik''
            (EE_Number (of_int (fase_numerik (trim (toLowerCase ''  Vegetatif 1 ''))))) example_point"
    by simp
  then have "converted = AList.update ''FaseNumerik'' (EE_Number (of_int code)) example_point"
    using v by (simp add: update_conv')
  then have 1: "konversi_label_numerik example_point =
     Inr [(''Fase'', EE_String ''  Vegetatif 1 ''), (''id'', EE_Number 17), (''FaseNumerik'', EE_Number 1)]"
    using r code by (simp add: example_point_def)
  from konversi_label_numerik_codes [OF q] obtain converted' code' where
    r': "konversi_label_numerik example_point_other = Inr converted'"
    and c': "trim (toLowerCase ''Tidak Diketahui'') \<notin>
               {''vegetatif 1'', ''vegetatif 2'', ''generatif'', ''panen'', ''bera''} \<longrightarrow> code' = 0"
    and v': "map_of converted' ''FaseNumerik'' = Some (EE_Number (of_int code'))"
    by (elim exE conjE) (rule that)
  have code': "code' = 0"
    using c' by (simp add: normalise_examples)
  have "konversi_label_numerik example_point_other =
     Inr (AList.update ''FaseNumerik''
            (EE_Number (of_int (fase_numerik (trim (toLowerCase ''Tidak Diketahui''))))) example_point_other)"
    using q by (simp add: konversi_label_numerik_def Let_def)
  with r' have "converted' = AList.update ''FaseNumerik''
            (EE_Number (of_int (fase_numerik (trim (toLowerCase ''Tidak Diketahui''))))) example_point_other"
    by simp
  then have "converted' = AList.update ''FaseNumerik'' (EE_Number (of_int code')) example_point_other"
    using v' by (simp add: update_conv')
  then have 2: "konversi_label_numerik example_point_other =
     Inr [(''Fase'', EE_String ''Tidak Diketahui''), (''FaseNumerik'', EE_Number 0)]"
    using r' code' by (simp add: example_point_other_def)
  show ?thesis using p q 1 2 by simp
qed

section \<open>Classifying the collection\<close>

lemma klasifikasi_image_tagged:
  assumes "map_of (properties img) ''system:time_start'' = Some (EE_Number t)"
  shows "klasifikasi_image P model img =
           Inr \<lparr>bands = [(''classification'', predict P model img)],
                properties =
                  AList.update ''tanggal'' (EE_String (date_format P ''YYYY-MM-dd'' t))
                    (AList.update ''system:time_start'' (EE_Number t) (classified_properties P img))\<rparr>"
  using assms
  by (simp add: klasifikasi_image_def rename_def classify_def set_property_def)

lemma map_collection_all:
  assumes "\<And>x. x \<in> set xs \<Longrightarrow> \<exists>y. f x = Inr y"
  shows "\<exists>ys. map_collection f xs = Inr ys \<and> length ys = length xs \<and>
              (\<forall>i<length xs. f (xs ! i) = Inr (ys ! i))"
  using assms
proof (induction xs)
  case Nil
  then show ?case by simp
next
  case (Cons x xs)
  then obtain y where y: "f x = Inr y" by auto
  from Cons obtain ys where ys: "map_collection f xs = Inr ys" "length ys = length xs"
    "\<forall>i<length xs. f (xs ! i) = Inr (ys ! i)"
    by auto
  have "\<forall>i<length (x # xs). f ((x # xs) ! i) = Inr ((y # ys) ! i)"
    using y ys(3) by (auto simp: nth_Cons split: nat.splits)
  then show ?case using y ys by simp
qed

text \<open>
  C5. For a collection in which every image has a numeric \<open>system:time_start\<close>,
  \<open>klasifikasi_collection\<close> returns a collection of the same length. Its image at each
  position is the classification of the input image at that position, renamed to the
  single band \<open>classification\<close>; its \<open>system:time_start\<close> is that of the input image and
  its \<open>tanggal\<close> is that timestamp formatted with the pattern \<open>YYYY-MM-dd\<close>.
\<close>

theorem klasifikasi_collection_tags_every_image:
  assumes "\<forall>img \<in> set coll. \<exists>t. map_of (properties img) ''system:time_start'' = Some (EE_Number t)"
  shows "\<exists>out.
           klasifikasi_collection P model coll = Inr out \<and>
           length out = length coll \<and>
           (\<forall>i<length coll.
              rename [''classification''] (classify P model (coll ! i)) = Inr (classify P model (coll ! i)) \<and>
              bands (out ! i) = bands (classify P model (coll ! i)) \<and>
              bands (out ! i) = [(''classification'', predict P model (coll ! i))] \<and>
              map_of (properties (out ! i)) ''system:time_start'' =
                map_of (properties (coll ! i)) ''system:time_start'' \<and>
              (\<exists>t. map_of (properties (coll ! i)) ''system:time_start'' = Some (EE_Number t) \<and>
                   map_of (properties (out ! i)) ''tanggal'' =
                     Some (EE_String (date_format P ''YYYY-MM-dd'' t))))"
proof -
  have "\<exists>y. klasifikasi_image P model img = Inr y" if "img \<in> set coll" for img
    using assms that klasifikasi_image_tagged by blast
  from map_collection_all [of coll "klasifikasi_image P model", OF this]
  obtain out where o: "map_collection (klasifikasi_image P model) coll = Inr out"
    "length out = length coll"
    "\<forall>i<length coll. klasifikasi_image P model (coll ! i) = Inr (out ! i)"
    by blast
  have "rename [''classification''] (classify P model (coll ! i)) = Inr (classify P model (coll ! i)) \<and>
        bands (out ! i) = bands (classify P model (coll ! i)) \<and>
        bands (out ! i) = [(''classification'', predict P model (coll ! i))] \<and>
        map_of (properties (out ! i)) ''system:time_start'' =
          map_of (properties (coll ! i)) ''system:time_start'' \<and>
        (\<exists>t. map_of (properties (coll ! i)) ''system:time_start'' = Some (EE_Number t) \<and>
             map_of (properties (out ! i)) ''tanggal'' =
               Some (EE_String (date_format P ''YYYY-MM-dd'' t)))"
    if i: "i < length coll" for i
  proof -
    from assms i obtain t where t: "map_of (properties (coll ! i)) ''system:time_start'' = Some (EE_Number t)"
      by (meson nth_mem)
    from o(3) i have "klasifikasi_image P model (coll ! i) = Inr (out ! i)" by simp
    with klasifikasi_image_tagged [OF t, of P model]
    have e: "out ! i = \<lparr>bands = [(''classification'', predict P model (coll ! i))],
                properties =
                  AList.update ''tanggal'' (EE_String (date_format P ''YYYY-MM-dd'' t))
                    (AList.update ''system:time_start'' (EE_Number t) (classified_properties P (coll ! i)))\<rparr>"
      by simp
    show ?thesis
      unfolding e using t by (simp add: rename_def update_conv' classify_def)
  qed
  with o(1,2) show ?thesis
    unfolding klasifikasi_collection_def by blast
qed

theorem klasifikasi_collection_tags_every_image_witness:
  "length example_collection = 2 \<and>
   map_of (properties (example_collection ! 0)) ''system:time_start'' = Some (EE_Number 1704067200000) \<and>
   map_of (properties (example_collection ! 1)) ''system:time_start'' = Some (EE_Number 1705104000000) \<and>
   (\<exists>out. klasifikasi_collection example_platform (\<lparr>numberOfTrees = 200, parameters = [], trained = None\<rparr>) example_collection = Inr out \<and>
      length out = 2 \<and>
      bands (out ! 0) = [(''classification'', 2)] \<and>
      map_of (properties (out ! 0)) ''system:time_start'' = Some (EE_Number 1704067200000) \<and>
      map_of (properties (out ! 0)) ''tanggal'' = Some (EE_String ''2024-01-01'') \<and>
      bands (out ! 1) = [(''classification'', 1)] \<and>
      map_of (properties (out ! 1)) ''system:time_start'' = Some (EE_Number 1705104000000) \<and>
      map_of (properties (out ! 1)) ''tanggal'' = Some (EE_String ''2024-01-13''))"
proof -
  let ?P = example_platform
  let ?M = "\<lparr>numberOfTrees = 200, parameters = [], trained = None\<rparr>"
  have h: "\<forall>img \<in> set example_collection.
      \<exists>t. map_of (properties img) ''system:time_start'' = Some (EE_Number t)"
    by (simp add: example_collection_def)
  have len: "length example_collection = 2"
    by (simp add: example_collection_def)
  have i0: "example_collection ! 0 = \<lparr>bands = [(''API'', 0), (''NDPI'', 1)],
       properties = [(''system:time_start'', EE_Number 1704067200000)]\<rparr>"
    and i1: "example_collection ! 1 = \<lparr>bands = [(''API'', 5)],
       properties = [(''orbit'', EE_String ''ASCENDING''), (''system:time_start'', EE_Number 1705104000000)]\<rparr>"
    by (simp_all add: example_collection_def)
  from klasifikasi_collection_tags_every_image [OF h, of ?P ?M]
  obtain out where o: "klasifikasi_collection ?P ?M example_collection = Inr out"
    and l: "length out = length example_collection"
    and a: "\<forall>i<length example_collection.
              rename [''classification''] (classify ?P ?M (example_collection ! i)) =
                Inr (classify ?P ?M (example_collection ! i)) \<and>
              bands (out ! i) = bands (classify ?P ?M (example_collection ! i)) \<and>
              bands (out ! i) = [(''classification'', predict ?P ?M (example_collection ! i))] \<and>
              map_of (properties (out ! i)) ''system:time_start'' =
                map_of (properties (example_collection ! i)) ''system:time_start'' \<and>
              (\<exists>t. map_of (properties (example_collection ! i)) ''system:time_start'' = Some (EE_Number t) \<and>
                   map_of (properties (out ! i)) ''tanggal'' =
                     Some (EE_String (date_format ?P ''YYYY-MM-dd'' t)))"
    by (elim exE conjE) (rule that)
  have lt: "0 < length example_collection" "1 < length example_collection"
    by (simp_all add: len)
  note c0 = a [rule_format, OF lt(1)]
  note c1 = a [rule_format, OF lt(2)]
  have a0: "bands (out ! 0) = [(''classification'', predict ?P ?M (example_collection ! 0))]"
    "map_of (properties (out ! 0)) ''system:time_start'' =
       map_of (properties (example_collection ! 0)) ''system:time_start''"
    "\<exists>t. map_of (properties (example_collection ! 0)) ''system:time_start'' = Some (EE_Number t) \<and>
         map_of (properties (out ! 0)) ''tanggal'' = Some (EE_String (date_format ?P ''YYYY-MM-dd'' t))"
    using c0 by blast+
  have a1: "bands (out ! 1) = [(''classification'', predict ?P ?M (example_collection ! 1))]"
    "map_of (properties (out ! 1)) ''system:time_start'' =
       map_of (properties (example_collection ! 1)) ''system:time_start''"
    "\<exists>t. map_of (properties (example_collection ! 1)) ''system:time_start'' = Some (EE_Number t) \<and>
         map_of (properties (out ! 1)) ''tanggal'' = Some (EE_String (date_format ?P ''YYYY-MM-dd'' t))"
    using c1 by blast+
  have v0: "predict ?P ?M (example_collection ! 0) = 2"
    "map_of (properties (example_collection ! 0)) ''system:time_start'' = Some (EE_Number 1704067200000)"
    unfolding i0 by (simp_all add: example_platform_def)
  have v1: "predict ?P ?M (example_collection ! 1) = 1"
    "map_of (properties (example_collection ! 1)) ''system:time_start'' = Some (EE_Number 1705104000000)"
    unfolding i1 by (simp_all add: example_platform_def)
  have f: "date_format ?P ''YYYY-MM-dd'' 1704067200000 = ''2024-01-01''"
    "date_format ?P ''YYYY-MM-dd'' 1705104000000 = ''2024-01-13''"
    by (simp_all add: example_platform_def)
  have b0: "bands (out ! 0) = [(''classification'', 2)]"
    "map_of (properties (out ! 0)) ''system:time_start'' = Some (EE_Number 1704067200000)"
    "map_of (properties (out ! 0)) ''tanggal'' = Some (EE_String ''2024-01-01'')"
    using a0 unfolding v0 by (simp_all only: f option.inject ee_value.inject simp_thms ex_simps)
  have b1: "bands (out ! 1) = [(''classification'', 1)]"
    "map_of (properties (out ! 1)) ''system:time_start'' = Some (EE_Number 1705104000000)"
    "map_of (properties (out ! 1)) ''tanggal'' = Some (EE_String ''2024-01-13'')"
    using a1 unfolding v1 by (simp_all only: f option.inject ee_value.inject simp_thms ex_simps)
  from o l b0 b1 have "\<exists>out. klasifikasi_collection ?P ?M example_collection = Inr out \<and>
      length out = 2 \<and>
      bands (out ! 0) = [(''classification'', 2)] \<and>
      map_of (properties (out ! 0)) ''system:time_start'' = Some (EE_Number 1704067200000) \<and>
      map_of (properties (out ! 0)) ''tanggal'' = Some (EE_String ''2024-01-01'') \<and>
      bands (out ! 1) = [(''classification'', 1)] \<and>
      map_of (properties (out ! 1)) ''system:time_start'' = Some (EE_Number 1705104000000) \<and>
      map_of (properties (out ! 1)) ''tanggal'' = Some (EE_String ''2024-01-13'')"
    unfolding len by (intro exI [of _ out] conjI)
  with len v0(2) v1(2) show ?thesis by (intro conjI)
qed

section \<open>Clearing the date-range layers\<close>

lemma fold_remove_layers:
  "fold (\<lambda>name ls. if P name then remove_layer name ls else ls) names ls =
     [(name, l) \<leftarrow> ls. \<not> (name \<in> set names \<and> P name)]"
proof (induction names arbitrary: ls)
  case Nil
  then show ?case by simp
next
  case (Cons n names)
  show ?case
  proof (cases "P n")
    case True
    have "fold (\<lambda>name ls. if P name then remove_layer name ls else ls) (n # names) ls =
          [(name, l) \<leftarrow> remove_layer n ls. \<not> (name \<in> set names \<and> P name)]"
      using True Cons.IH by simp
    also have "\<dots> = [(name, l) \<leftarrow> ls. \<not> (name \<in> set (n # names) \<and> P name)]"
      unfolding remove_layer_def AList.delete_eq filter_filter
      by (rule filter_cong) (use True in auto)
    finally show ?thesis .
  next
    case False
    have "fold (\<lambda>name ls. if P name then remove_layer name ls else ls) (n # names) ls =
          [(name, l) \<leftarrow> ls. \<not> (name \<in> set names \<and> P name)]"
      using False Cons.IH by simp
    also have "\<dots> = [(name, l) \<leftarrow> ls. \<not> (name \<in> set (n # names) \<and> P name)]"
      by (rule filter_cong) (use False in auto)
    finally show ?thesis .
  qed
qed

lemma clear_layers_filter:
  "Map_layers (clear_layers ui) =
     [(name, l) \<leftarrow> Map_layers ui. \<not> (sublist ''Klasifikasi'' name \<and> name \<noteq> ''Klasifikasi Mean'')]"
proof -
  have "Map_layers (clear_layers ui) =
     [(name, l) \<leftarrow> Map_layers ui.
        \<not> (name \<in> set (map fst (Map_layers ui)) \<and>
           (sublist ''Klasifikasi'' name \<and> name \<noteq> ''Klasifikasi Mean''))]"
    unfolding clear_layers_def Let_def
    by (simp add: fold_remove_layers
          [of "\<lambda>name. sublist ''Klasifikasi'' name \<and> name \<noteq> ''Klasifikasi Mean''"])
  also have "\<dots> =
     [(name, l) \<leftarrow> Map_layers ui. \<not> (sublist ''Klasifikasi'' name \<and> name \<noteq> ''Klasifikasi Mean'')]"
    by (rule filter_cong) force+
  finally show ?thesis .
qed

lemma map_of_filter_keys:
  "map_of [(k, v) \<leftarrow> al. Q k] k' = (if Q k' then map_of al k' else None)"
  by (induction al) auto

text \<open>
  C10. \<open>clear_layers\<close> keeps, in their order, exactly the layers whose name does not
  contain \<open>Klasifikasi\<close> or is \<open>Klasifikasi Mean\<close>. A layer whose name contains
  \<open>Klasifikasi\<close> and is not \<open>Klasifikasi Mean\<close> is gone afterwards; every other name
  is bound to the layer it was bound to before, in particular \<open>Titik Pelatihan\<close>,
  \<open>Klasifikasi Mean\<close> and the legend \<open>Legenda\<close>.
\<close>

theorem clear_layers_removes_only_temporal_layers:
  "Map_layers (clear_layers ui) =
     [(name, l) \<leftarrow> Map_layers ui. \<not> (sublist ''Klasifikasi'' name \<and> name \<noteq> ''Klasifikasi Mean'')] \<and>
   (\<forall>name. sublist ''Klasifikasi'' name \<and> name \<noteq> ''Klasifikasi Mean'' \<longrightarrow>
      map_of (Map_layers (clear_layers ui)) name = None) \<and>
   (\<forall>name. \<not> (sublist ''Klasifikasi'' name \<and> name \<noteq> ''Klasifikasi Mean'') \<longrightarrow>
      map_of (Map_layers (clear_layers ui)) name = map_of (Map_layers ui) name) \<and>
   map_of (Map_layers (clear_layers ui)) ''Titik Pelatihan'' = map_of (Map_layers ui) ''Titik Pelatihan'' \<and>
   map_of (Map_layers (clear_layers ui)) ''Klasifikasi Mean'' = map_of (Map_layers ui) ''Klasifikasi Mean'' \<and>
   map_of (Map_layers (clear_layers ui)) ''Legenda'' = map_of (Map_layers ui) ''Legenda''"
proof -
  have m: "map_of (Map_layers (clear_layers ui)) name =
        (if \<not> (sublist ''Klasifikasi'' name \<and> name \<noteq> ''Klasifikasi Mean'')
         then map_of (Map_layers ui) name else None)" for name
    unfolding clear_layers_filter
    by (rule map_of_filter_keys
          [of "\<lambda>name. \<not> (sublist ''Klasifikasi'' name \<and> name \<noteq> ''Klasifikasi Mean'')"])
  have t: "\<not> sublist ''Klasifikasi'' ''Titik Pelatihan''"
    by code_simp
  have g: "\<not> sublist ''Klasifikasi'' ''Legenda''"
    by code_simp
  have 1: "\<forall>name. sublist ''Klasifikasi'' name \<and> name \<noteq> ''Klasifikasi Mean'' \<longrightarrow>
      map_of (Map_layers (clear_layers ui)) name = None"
    by (simp add: m)
  have 2: "\<forall>name. \<not> (sublist ''Klasifikasi'' name \<and> name \<noteq> ''Klasifikasi Mean'') \<longrightarrow>
      map_of (Map_layers (clear_layers ui)) name = map_of (Map_layers ui) name"
    by (simp add: m)
  have 3: "map_of (Map_layers (clear_layers ui)) ''Titik Pelatihan'' = map_of (Map_layers ui) ''Titik Pelatihan''"
    using t by (simp add: m)
  have 4: "map_of (Map_layers (clear_layers ui)) ''Klasifikasi Mean'' = map_of (Map_layers ui) ''Klasifikasi Mean''"
    by (simp add: m)
  have 5: "map_of (Map_layers (clear_layers ui)) ''Legenda'' = map_of (Map_layers ui) ''Legenda''"
    using g by (simp add: m)
  from clear_layers_filter [of ui] 1 2 3 4 5 show ?thesis
    by (intro conjI)
qed

theorem clear_layers_removes_only_temporal_layers_witness:
  "sublist ''Klasifikasi'' ''Klasifikasi 2024-01-01 s.d. 2024-12-31'' \<and>
   map_of (Map_layers example_ui) ''Klasifikasi 2024-01-01 s.d. 2024-12-31'' = Some 3 \<and>
   map_of (Map_layers (clear_layers example_ui)) ''Klasifikasi 2024-01-01 s.d. 2024-12-31'' = None \<and>
   \<not> sublist ''Klasifikasi'' ''OpenStreetMap'' \<and>
   map_of (Map_layers (clear_layers example_ui)) ''OpenStreetMap'' = Some 0 \<and>
   map_of (Map_layers (clear_layers example_ui)) ''Klasifikasi Mean'' = Some 2 \<and>
   map_of (Map_layers (clear_layers example_ui)) ''Titik Pelatihan'' = Some 1 \<and>
   map_of (Map_layers (clear_layers example_ui)) ''Legenda'' = Some 4"
proof -
  note t = clear_layers_removes_only_temporal_layers [of example_ui]
  have s: "sublist ''Klasifikasi'' ''Klasifikasi 2024-01-01 s.d. 2024-12-31''"
    by code_simp
  have d: "''Klasifikasi 2024-01-01 s.d. 2024-12-31'' \<noteq> ''Klasifikasi Mean''"
    by simp
  have n: "\<not> sublist ''Klasifikasi'' ''OpenStreetMap''"
    by code_simp
  have l: "map_of (Map_layers example_ui) ''Klasifikasi 2024-01-01 s.d. 2024-12-31'' = Some 3"
    "map_of (Map_layers example_ui) ''OpenStreetMap'' = Some 0"
    "map_of (Map_layers example_ui) ''Klasifikasi Mean'' = Some 2"
    "map_of (Map_layers example_ui) ''Titik Pelatihan'' = Some 1"
    "map_of (Map_layers example_ui) ''Legenda'' = Some 4"
    by (simp_all add: example_ui_def)
  have 1: "map_of (Map_layers (clear_layers example_ui)) ''Klasifikasi 2024-01-01 s.d. 2024-12-31'' = None"
    using t [THEN conjunct2, THEN conjunct1, rule_format, OF conjI [OF s d]] .
  have 2: "map_of (Map_layers (clear_layers example_ui)) ''OpenStreetMap'' = Some 0"
    using t [THEN conjunct2, THEN conjunct2, THEN conjunct1, rule_format, of "''OpenStreetMap''"] n l(2)
    by simp
  note k = t [THEN conjunct2, THEN conjunct2, THEN conjunct2]
  have 3: "map_of (Map_layers (clear_layers example_ui)) ''Klasifikasi Mean'' = Some 2"
    by (rule trans [OF k [THEN conjunct2, THEN conjunct1] l(3)])
  have 4: "map_of (Map_layers (clear_layers example_ui)) ''Titik Pelatihan'' = Some 1"
    by (rule trans [OF k [THEN conjunct1] l(4)])
  have 5: "map_of (Map_layers (clear_layers example_ui)) ''Legenda'' = Some 4"
    by (rule trans [OF k [THEN conjunct2, THEN conjunct2] l(5)])
  from s l(1) 1 n 2 3 4 5 show ?thesis by (intro conjI)
qed

end
